theory Spec2Isabelle
  imports Main "HOL-Library.AList"
begin

section \<open>The Python values and library calls the program relies on\<close>

text \<open>
  The program is \<^verbatim>\<open>src/stconflict/__init__.py\<close>. File names are modelled as
  \<^typ>\<open>string\<close>, a list of bytes: every character the program looks for (the dot, the
  slash, the digits and capital letters of a conflict marker) is ASCII, and an ASCII byte
  never occurs inside the UTF-8 encoding of another character, so searching the bytes
  finds what searching Python's code points finds.

  An exception is a value of \<open>error + 'a\<close>, \<open>Inl\<close> carrying the exception's class.
\<close>

datatype error =
    AssertionError
  | KeyError
  | IndexError
  | ValueError
  | TypeError
  | FileNotFoundError
  | IsADirectoryError
  | NotADirectoryError
  | FileExistsError

subsection \<open>\<^verbatim>\<open>int(s)\<close>, \<^verbatim>\<open>str(i)\<close> and the format specification \<^verbatim>\<open>{:>0w}\<close>\<close>

definition is_digit :: "char \<Rightarrow> bool" where
  "is_digit c = (c \<in> set ''0123456789'')"

definition is_uid_char :: "char \<Rightarrow> bool" where
  "is_uid_char c = (c \<in> set ''0123456789ABCDEFGHIJKLMNOPQRSTUVWXYZ'')"

definition digit_value :: "char \<Rightarrow> int" where
  "digit_value c = int (of_char c) - 48"

text \<open>
  \<^verbatim>\<open>int(s)\<close> on a string of decimal digits; anything else raises ValueError here (Python
  also accepts a sign, blanks and underscores, which no string of this program has: the
  strings converted are groups of the marker pattern, ASCII digits only).
\<close>

definition py_int :: "string \<Rightarrow> error + int" where
  "py_int s =
     (if s \<noteq> [] \<and> list_all is_digit s
      then Inr (foldl (\<lambda>a c. 10 * a + digit_value c) 0 s)
      else Inl ValueError)"

definition digit_char :: "nat \<Rightarrow> char" where
  "digit_char d = char_of (48 + d)"

fun nat_digits :: "nat \<Rightarrow> string" where
  "nat_digits n = (if n < 10 then [digit_char n] else nat_digits (n div 10) @ [digit_char (n mod 10)])"

declare nat_digits.simps [simp del]

definition py_str_int :: "int \<Rightarrow> string" where
  "py_str_int i = (if i < 0 then CHR ''-'' # nat_digits (nat (- i)) else nat_digits (nat i))"

text \<open>
  \<^verbatim>\<open>'{:>0w}'.format(i)\<close>: the text of \<open>i\<close>, right-aligned in a field of width \<open>w\<close>
  filled with zeros. The alignment is explicit, so the fill goes before a minus sign.
\<close>

definition format_right_zero :: "nat \<Rightarrow> int \<Rightarrow> string" where
  "format_right_zero w i = replicate (w - length (py_str_int i)) CHR ''0'' @ py_str_int i"

subsection \<open>\<^verbatim>\<open>os.path.join\<close> and \<^verbatim>\<open>os.path.splitext\<close> (posixpath)\<close>

definition path_join :: "string \<Rightarrow> string \<Rightarrow> string" where
  "path_join a b =
     (if b \<noteq> [] \<and> hd b = CHR ''/'' then b
      else if a = [] \<or> last a = CHR ''/'' then a @ b
      else a @ ''/'' @ b)"

text \<open>\<^verbatim>\<open>s.rfind(c)\<close>: the last index of \<open>c\<close>, or \<open>-1\<close>.\<close>

fun rfind_from :: "int \<Rightarrow> char \<Rightarrow> string \<Rightarrow> int" where
  "rfind_from i c [] = - 1"
| "rfind_from i c (x # xs) =
     (let r = rfind_from (i + 1) c xs in if r \<noteq> - 1 then r else if x = c then i else - 1)"

definition rfind :: "string \<Rightarrow> char \<Rightarrow> int" where
  "rfind s c = rfind_from 0 c s"

text \<open>
  The loop of \<^verbatim>\<open>genericpath._splitext\<close> that skips the leading dots of the last
  component: it returns \<open>True\<close> when a character other than the dot stands between
  \<open>filenameIndex\<close> and \<open>dotIndex\<close>. The fuel is the distance left, which each round
  shortens by one.
\<close>

fun has_non_dot :: "string \<Rightarrow> nat \<Rightarrow> nat \<Rightarrow> bool" where
  "has_non_dot p filenameIndex 0 = False"
| "has_non_dot p filenameIndex (Suc n) =
     (if take 1 (drop filenameIndex p) \<noteq> ''.'' then True
      else has_non_dot p (filenameIndex + 1) n)"

definition splitext :: "string \<Rightarrow> string \<times> string" where
  "splitext p =
     (let sepIndex = rfind p CHR ''/'';
          dotIndex = rfind p CHR ''.''
      in if dotIndex > sepIndex \<and>
            has_non_dot p (nat (sepIndex + 1)) (nat (dotIndex - (sepIndex + 1)))
         then (take (nat dotIndex) p, drop (nat dotIndex) p)
         else (p, []))"

subsection \<open>\<^verbatim>\<open>datetime.datetime\<close>\<close>

record datetime =
  year :: int
  month :: int
  day :: int
  hour :: int
  minute :: int
  second :: int

definition is_leap :: "int \<Rightarrow> bool" where
  "is_leap y = (y mod 4 = 0 \<and> (y mod 100 \<noteq> 0 \<or> y mod 400 = 0))"

definition days_in_month :: "int \<Rightarrow> int \<Rightarrow> int" where
  "days_in_month y m =
     (if m = 2 then (if is_leap y then 29 else 28)
      else if m \<in> {4, 6, 9, 11} then 30 else 31)"

definition days_before_year :: "int \<Rightarrow> int" where
  "days_before_year y = (let z = y - 1 in z * 365 + z div 4 - z div 100 + z div 400)"

definition days_before_month :: "int \<Rightarrow> int \<Rightarrow> int" where
  "days_before_month y m =
     (\<Sum>k \<leftarrow> [1 ..< nat m]. days_in_month y (int k))"

text \<open>
  The constructor \<^verbatim>\<open>datetime.datetime(y, m, d, H, M, S)\<close> raises ValueError on a field
  out of range.
\<close>

definition datetime_new :: "int \<Rightarrow> int \<Rightarrow> int \<Rightarrow> int \<Rightarrow> int \<Rightarrow> int \<Rightarrow> error + datetime" where
  "datetime_new y m d H M S =
     (if 1 \<le> y \<and> y \<le> 9999 \<and> 1 \<le> m \<and> m \<le> 12 \<and> 1 \<le> d \<and> d \<le> days_in_month y m \<and>
         0 \<le> H \<and> H \<le> 23 \<and> 0 \<le> M \<and> M \<le> 59 \<and> 0 \<le> S \<and> S \<le> 59
      then Inr \<lparr>year = y, month = m, day = d, hour = H, minute = M, second = S\<rparr>
      else Inl ValueError)"

definition toordinal :: "datetime \<Rightarrow> int" where
  "toordinal t = days_before_year (year t) + days_before_month (year t) (month t) + day t"

text \<open>
  \<^verbatim>\<open>(a - b).total_seconds()\<close>. Every datetime of this program has microsecond 0 (a
  Timestamp builds its datetime from whole seconds), so the float Python returns is a
  whole number, far below \<open>2^53\<close>, and an \<^typ>\<open>int\<close> holds it exactly.
\<close>

definition total_seconds_between :: "datetime \<Rightarrow> datetime \<Rightarrow> int" where
  "total_seconds_between a b =
     (toordinal a - toordinal b) * 86400 +
     ((hour a * 3600 + minute a * 60 + second a) - (hour b * 3600 + minute b * 60 + second b))"

section \<open>Markers: classes Date, Time, Timestamp and Conflict\<close>

record Date =
  yy :: int
  mm :: int
  dd :: int

record Time =
  hh :: int
  mm :: int
  ss :: int

record Timestamp =
  date :: Date
  time :: Time
  dt :: datetime

record Conflict =
  date :: Date
  time :: Time
  uid :: string
  timestamp :: Timestamp

definition Date_repr :: "Date \<Rightarrow> string" where
  "Date_repr d =
     format_right_zero 4 (yy d) @ format_right_zero 2 (Date.mm d) @ format_right_zero 2 (dd d)"

definition Time_repr :: "Time \<Rightarrow> string" where
  "Time_repr t =
     format_right_zero 2 (hh t) @ format_right_zero 2 (Time.mm t) @ format_right_zero 2 (ss t)"

definition Timestamp_init :: "Date \<Rightarrow> Time \<Rightarrow> error + Timestamp" where
  "Timestamp_init d t =
     (case datetime_new (yy d) (Date.mm d) (dd d) (hh t) (Time.mm t) (ss t) of
        Inl e \<Rightarrow> Inl e
      | Inr x \<Rightarrow> Inr \<lparr>Timestamp.date = d, Timestamp.time = t, dt = x\<rparr>)"

definition Timestamp_repr :: "Timestamp \<Rightarrow> string" where
  "Timestamp_repr t = Date_repr (Timestamp.date t) @ Time_repr (Timestamp.time t)"

definition Timestamp_from_dt :: "datetime \<Rightarrow> error + Timestamp" where
  "Timestamp_from_dt x =
     Timestamp_init \<lparr>yy = year x, mm = month x, dd = day x\<rparr>
                    \<lparr>hh = hour x, mm = minute x, ss = second x\<rparr>"

definition Timestamp_delta :: "Timestamp \<Rightarrow> Timestamp \<Rightarrow> int" where
  "Timestamp_delta self other = total_seconds_between (dt self) (dt other)"

text \<open>
  \<^verbatim>\<open>Conflict.__init__(date, time, uid)\<close>: \<open>date\<close> and \<open>time\<close> are triples of strings,
  which the constructors of \<open>Date\<close> and \<open>Time\<close>, called on the unpacked triples, convert
  with \<^verbatim>\<open>int\<close>; the Timestamp's datetime raises ValueError on a date or time that does
  not exist.
\<close>

definition Conflict_init ::
  "string \<times> string \<times> string \<Rightarrow> string \<times> string \<times> string \<Rightarrow> string \<Rightarrow> error + Conflict" where
  "Conflict_init d t u =
     (case d of (dy, dm, dd') \<Rightarrow> case t of (th, tm, ts) \<Rightarrow>
      case py_int dy of Inl e \<Rightarrow> Inl e | Inr y \<Rightarrow>
      case py_int dm of Inl e \<Rightarrow> Inl e | Inr m \<Rightarrow>
      case py_int dd' of Inl e \<Rightarrow> Inl e | Inr d' \<Rightarrow>
      case py_int th of Inl e \<Rightarrow> Inl e | Inr H \<Rightarrow>
      case py_int tm of Inl e \<Rightarrow> Inl e | Inr M \<Rightarrow>
      case py_int ts of Inl e \<Rightarrow> Inl e | Inr S \<Rightarrow>
      (let date' = \<lparr>yy = y, mm = m, dd = d'\<rparr>; time' = \<lparr>hh = H, mm = M, ss = S\<rparr>
       in case Timestamp_init date' time' of
            Inl e \<Rightarrow> Inl e
          | Inr stamp \<Rightarrow>
              Inr \<lparr>Conflict.date = date', Conflict.time = time', uid = u, timestamp = stamp\<rparr>))"

definition Conflict_repr :: "Conflict \<Rightarrow> string" where
  "Conflict_repr c =
     ''.sync-conflict-'' @ Date_repr (Conflict.date c) @ ''-'' @ Time_repr (Conflict.time c)
       @ ''-'' @ uid c"

text \<open>\<^verbatim>\<open>Conflict.format(conflicts)\<close>: the texts of the conflicts, one after the other.\<close>

fun Conflict_format :: "Conflict list \<Rightarrow> string" where
  "Conflict_format [] = []"
| "Conflict_format (c # cs) = Conflict_repr c @ Conflict_format cs"

subsection \<open>The pattern \<^verbatim>\<open>Conflict.REGEX\<close>\<close>

text \<open>
  \<^verbatim>\<open>\.sync-conflict-(DATE)-(TIME)-(UID)\<close> matches exactly 38 characters: the literal
  prefix, eight digits, a dash, six digits, a dash, and seven characters of
  \<^verbatim>\<open>[0-9A-Z]\<close>. \<open>REGEX_match s\<close> is the match of the pattern at the start of \<open>s\<close>,
  as its named groups \<open>((dy, dm, dd), (th, tm, ts), uid)\<close>.
\<close>

definition REGEX_match ::
  "string \<Rightarrow> ((string \<times> string \<times> string) \<times> (string \<times> string \<times> string) \<times> string) option" where
  "REGEX_match s =
     (let d = take 8 (drop 15 s); t = take 6 (drop 24 s); u = take 7 (drop 31 s)
      in if 38 \<le> length s \<and> take 15 s = ''.sync-conflict-'' \<and> list_all is_digit d \<and>
            take 1 (drop 23 s) = ''-'' \<and> list_all is_digit t \<and>
            take 1 (drop 30 s) = ''-'' \<and> list_all is_uid_char u
         then Some ((take 4 d, take 2 (drop 4 d), drop 6 d),
                    (take 2 t, take 2 (drop 2 t), drop 4 t), u)
         else None)"

text \<open>
  \<^verbatim>\<open>REGEX.finditer(s)\<close>: the matches from left to right, none overlapping another; after
  a match the search goes on behind it (37 characters after its first).
\<close>

fun REGEX_finditer ::
  "string \<Rightarrow> ((string \<times> string \<times> string) \<times> (string \<times> string \<times> string) \<times> string) list" where
  "REGEX_finditer [] = []"
| "REGEX_finditer (c # cs) =
     (case REGEX_match (c # cs) of
        Some g \<Rightarrow> g # REGEX_finditer (drop 37 cs)
      | None \<Rightarrow> REGEX_finditer cs)"

text \<open>\<^verbatim>\<open>REGEX.sub('', s)\<close>: \<open>s\<close> without its matches.\<close>

fun REGEX_sub_empty :: "string \<Rightarrow> string" where
  "REGEX_sub_empty [] = []"
| "REGEX_sub_empty (c # cs) =
     (case REGEX_match (c # cs) of
        Some g \<Rightarrow> REGEX_sub_empty (drop 37 cs)
      | None \<Rightarrow> c # REGEX_sub_empty cs)"

text \<open>
  \<^verbatim>\<open>Conflict.parse(path)\<close>: one Conflict for each match, in order; the first date or
  time that does not exist raises.
\<close>

fun Conflict_parse_matches ::
  "((string \<times> string \<times> string) \<times> (string \<times> string \<times> string) \<times> string) list
     \<Rightarrow> error + Conflict list" where
  "Conflict_parse_matches [] = Inr []"
| "Conflict_parse_matches ((d, t, u) # gs) =
     (case Conflict_init d t u of
        Inl e \<Rightarrow> Inl e
      | Inr c \<Rightarrow> (case Conflict_parse_matches gs of Inl e \<Rightarrow> Inl e | Inr cs \<Rightarrow> Inr (c # cs)))"

definition Conflict_parse :: "string \<Rightarrow> error + Conflict list" where
  "Conflict_parse path = Conflict_parse_matches (REGEX_finditer path)"

section \<open>Class ConflictFile\<close>

text \<open>
  A ConflictFile is a mutable object: \<open>parent\<close> and \<open>children\<close> are references to other
  ConflictFile objects, modelled as addresses into the heap of the world below.
\<close>

record ConflictFile =
  path :: string
  base :: string
  name :: string
  conflicts :: "Conflict list"
  selected :: string
  ext :: string
  original :: string
  root :: bool
  parent :: "nat option"
  children :: "nat list"

text \<open>
  \<^verbatim>\<open>format(self, name=None, conflicts=None, ext=None)\<close>: an argument left out is
  \<open>None\<close> and stands for the object's own field; an empty list or string given is used
  as it is.
\<close>

definition ConflictFile_format ::
  "ConflictFile \<Rightarrow> string option \<Rightarrow> Conflict list option \<Rightarrow> string option \<Rightarrow> string" where
  "ConflictFile_format self name' conflicts' ext' =
     (let cs = (case conflicts' of None \<Rightarrow> conflicts self | Some x \<Rightarrow> x);
          e = (case ext' of None \<Rightarrow> ext self | Some x \<Rightarrow> x);
          n = (case name' of None \<Rightarrow> selected self | Some x \<Rightarrow> x)
      in n @ Conflict_format cs @ e)"

definition ConflictFile_repr :: "ConflictFile \<Rightarrow> string" where
  "ConflictFile_repr self = ConflictFile_format self None None None"

text \<open>
  \<^verbatim>\<open>ConflictFile.__init__\<close>. The fields are assigned in the source's order: \<open>original\<close>
  is formatted from the object as it stands once \<open>selected\<close> and \<open>ext\<close> are set, and the
  assertion compares the raw name with the text of the finished object.
  \<^verbatim>\<open>conflicts[:-1]\<close> is \<^const>\<open>butlast\<close>, empty for the empty list too.
\<close>

definition ConflictFile_init ::
  "string \<Rightarrow> string \<Rightarrow> string \<Rightarrow> Conflict list \<Rightarrow> error + ConflictFile" where
  "ConflictFile_init path' base' name' conflicts' =
     (let se = splitext (REGEX_sub_empty name');
          self0 = \<lparr>path = path', base = base', name = name', conflicts = conflicts',
                   selected = fst se, ext = snd se, original = [], root = False,
                   parent = None, children = []\<rparr>;
          self1 = self0\<lparr>original :=
                    ConflictFile_format self0 None (Some (butlast (conflicts self0))) (Some [])\<rparr>;
          self2 = self1\<lparr>root := (original self1 = selected self1)\<rparr>
      in if name self2 = ConflictFile_repr self2 then Inr self2 else Inl AssertionError)"

text \<open>
  The body of the inner loop of \<^verbatim>\<open>Cli.scan_for_conflicts\<close>, for one file \<open>name\<close> found
  in directory \<open>base\<close> under the root \<open>path\<close>: a name with no marker is skipped (\<open>None\<close>),
  any other becomes a ConflictFile.
\<close>

definition scan_name :: "string \<Rightarrow> string \<Rightarrow> string \<Rightarrow> error + ConflictFile option" where
  "scan_name path' base' name' =
     (case Conflict_parse name' of
        Inl e \<Rightarrow> Inl e
      | Inr cs \<Rightarrow>
          if cs \<noteq> [] then
            (case ConflictFile_init path' base' name' cs of
               Inl e \<Rightarrow> Inl e
             | Inr f \<Rightarrow> Inr (Some f))
          else Inr None)"

section \<open>The world the program runs in\<close>

text \<open>
  What the program reads and writes outside its arguments: the file system (a map from the
  path strings handed to the operating system to what is there, with the directory
  resolution \<^verbatim>\<open>os.path.realpath\<close> as it stands), the system clock (what
  \<^verbatim>\<open>datetime.datetime.now()\<close> returns, down to the second), the class attribute
  \<^verbatim>\<open>Timestamp.NOW\<close>, the lines printed so far, and the heap of ConflictFile objects.
\<close>

datatype node = Dir | File string

record world =
  files :: "string \<Rightarrow> node option"
  realpath :: "string \<Rightarrow> string"
  clock :: datetime
  NOW :: "Timestamp option"
  stdout :: "string list"
  heap :: "nat \<Rightarrow> ConflictFile"

record args =
  commit :: bool
  backup_dir :: string
  version_dir :: string
  PATH :: "string list"

definition print :: "string \<Rightarrow> world \<Rightarrow> world" where
  "print line w = w\<lparr>stdout := stdout w @ [line]\<rparr>"

definition isfile :: "world \<Rightarrow> string \<Rightarrow> bool" where
  "isfile w p = (case files w p of Some (File _) \<Rightarrow> True | _ \<Rightarrow> False)"

definition isdir :: "world \<Rightarrow> string \<Rightarrow> bool" where
  "isdir w p = (case files w p of Some Dir \<Rightarrow> True | _ \<Rightarrow> False)"

text \<open>\<^verbatim>\<open>os.path.dirname\<close>, and whether a new entry at \<open>p\<close> has a directory to go into
  (the empty directory name is the working directory, a run of slashes the root).\<close>

definition dirname :: "string \<Rightarrow> string" where
  "dirname p =
     (let head = take (nat (rfind p CHR ''/'' + 1)) p
      in if head \<noteq> [] \<and> head \<noteq> replicate (length head) CHR ''/''
         then rev (dropWhile (\<lambda>c. c = CHR ''/'') (rev head)) else head)"

definition parent_error :: "world \<Rightarrow> string \<Rightarrow> error option" where
  "parent_error w p =
     (let d = dirname p
      in if d = [] \<or> d = replicate (length d) CHR ''/'' then None
         else (case files w d of
                 None \<Rightarrow> Some FileNotFoundError
               | Some (File _) \<Rightarrow> Some NotADirectoryError
               | Some Dir \<Rightarrow> None))"

definition os_remove :: "string \<Rightarrow> world \<Rightarrow> error + world" where
  "os_remove p w =
     (case files w p of
        None \<Rightarrow> Inl FileNotFoundError
      | Some Dir \<Rightarrow> Inl IsADirectoryError
      | Some (File _) \<Rightarrow> Inr (w\<lparr>files := (files w)(p := None)\<rparr>))"

definition os_mkdir :: "string \<Rightarrow> world \<Rightarrow> error + world" where
  "os_mkdir p w =
     (case files w p of
        Some _ \<Rightarrow> Inl FileExistsError
      | None \<Rightarrow>
          (case parent_error w p of
             Some e \<Rightarrow> Inl e
           | None \<Rightarrow> Inr (w\<lparr>files := (files w)(p \<mapsto> Dir)\<rparr>)))"

text \<open>
  \<^verbatim>\<open>os.rename(src, dst)\<close> for a source that is a regular file, which is all the program
  renames (names that \<^verbatim>\<open>os.walk\<close> listed as files); an existing file at \<open>dst\<close> is
  replaced. For a source that is a directory the entry alone moves: the model does not
  follow a directory's contents.
\<close>

definition os_rename :: "string \<Rightarrow> string \<Rightarrow> world \<Rightarrow> error + world" where
  "os_rename src dst w =
     (case files w src of
        None \<Rightarrow> Inl FileNotFoundError
      | Some n \<Rightarrow>
          (case parent_error w dst of
             Some e \<Rightarrow> Inl e
           | None \<Rightarrow>
               if n \<noteq> Dir \<and> files w dst = Some Dir then Inl IsADirectoryError
               else if n = Dir \<and> files w dst \<noteq> None \<and> files w dst \<noteq> Some Dir
                 then Inl NotADirectoryError
               else Inr (w\<lparr>files := (files w)(src := None, dst \<mapsto> n)\<rparr>)))"

subsection \<open>Reading a file opened with mode \<^verbatim>\<open>"r"\<close>, and \<^verbatim>\<open>hashlib.sha256\<close>\<close>

text \<open>
  Mode \<^verbatim>\<open>"r"\<close> is text mode: the bytes are decoded, the line ends \<^verbatim>\<open>\r\n\<close> and
  \<^verbatim>\<open>\r\<close> become \<^verbatim>\<open>\n\<close>, and iterating over the file yields its lines as \<^verbatim>\<open>str\<close>
  objects, each with its line end. The model takes the decoded text to be the bytes (true
  of ASCII content under every codec Python chooses); on bytes the codec rejects, Python
  raises UnicodeDecodeError while reading, where the model goes on to the first use of
  the line.
\<close>

fun universal_newlines :: "string \<Rightarrow> string" where
  "universal_newlines [] = []"
| "universal_newlines [c] = [if c = CHR 0x0D then CHR 0x0A else c]"
| "universal_newlines (c # d # cs) =
     (if c = CHR 0x0D \<and> d = CHR 0x0A then CHR 0x0A # universal_newlines cs
      else if c = CHR 0x0D then CHR 0x0A # universal_newlines (d # cs)
      else c # universal_newlines (d # cs))"

fun split_lines :: "string \<Rightarrow> string list" where
  "split_lines [] = []"
| "split_lines (c # cs) =
     (if c = CHR 0x0A then [c] # split_lines cs
      else (case split_lines cs of [] \<Rightarrow> [[c]] | l # ls \<Rightarrow> (c # l) # ls))"

definition open_r :: "world \<Rightarrow> string \<Rightarrow> error + string list" where
  "open_r w p =
     (case files w p of
        None \<Rightarrow> Inl FileNotFoundError
      | Some Dir \<Rightarrow> Inl IsADirectoryError
      | Some (File content) \<Rightarrow> Inr (split_lines (universal_newlines content)))"

text \<open>
  A hash object is modelled by the bytes fed to it so far, and its digest by those bytes:
  SHA-256 taken as free of collisions. \<^verbatim>\<open>update\<close> accepts bytes only; given a
  \<^verbatim>\<open>str\<close> it raises TypeError.
\<close>

datatype pyarg = Str string | Bytes string

fun sha256_update :: "string \<Rightarrow> pyarg \<Rightarrow> error + string" where
  "sha256_update h (Str s) = Inl TypeError"
| "sha256_update h (Bytes b) = Inr (h @ b)"

definition sha256_digest :: "string \<Rightarrow> string" where
  "sha256_digest h = h"

text \<open>The loop \<^verbatim>\<open>for line in f: digest.update(line)\<close> over the lines of a text file.\<close>

fun update_lines :: "string \<Rightarrow> string list \<Rightarrow> error + string" where
  "update_lines h [] = Inr h"
| "update_lines h (line # rest) =
     (case sha256_update h (Str line) of Inl e \<Rightarrow> Inl e | Inr h' \<Rightarrow> update_lines h' rest)"

section \<open>Methods of ConflictFile and Timestamp that read or change the world\<close>

definition canonical_name :: "world \<Rightarrow> ConflictFile \<Rightarrow> string" where
  "canonical_name w self = path_join (realpath w (base self)) (name self)"

definition canonical_selected :: "world \<Rightarrow> ConflictFile \<Rightarrow> string" where
  "canonical_selected w self =
     path_join (realpath w (base self)) (ConflictFile_format self (Some (selected self)) (Some []) None)"

definition canonical_original :: "world \<Rightarrow> ConflictFile \<Rightarrow> string" where
  "canonical_original w self =
     path_join (realpath w (base self)) (ConflictFile_format self (Some (original self)) (Some []) None)"

definition backup_directory :: "ConflictFile \<Rightarrow> args \<Rightarrow> string" where
  "backup_directory self a = path_join (path self) (backup_dir a)"

definition canonical_backup :: "ConflictFile \<Rightarrow> args \<Rightarrow> string" where
  "canonical_backup self a = path_join (backup_directory self a) (name self)"

text \<open>\<^verbatim>\<open>top\<close> is \<^verbatim>\<open>self.conflicts[-1]\<close>, an IndexError on an empty list.\<close>

definition ConflictFile_top :: "ConflictFile \<Rightarrow> error + Conflict" where
  "ConflictFile_top self = (if conflicts self = [] then Inl IndexError else Inr (last (conflicts self)))"

definition Timestamp_now :: "world \<Rightarrow> error + Timestamp \<times> world" where
  "Timestamp_now w =
     (case NOW w of
        None \<Rightarrow>
          (case Timestamp_from_dt (clock w) of
             Inl e \<Rightarrow> Inl e
           | Inr t \<Rightarrow> Inr (t, w\<lparr>NOW := Some t\<rparr>))
      | Some t \<Rightarrow> Inr (t, w))"

definition Timestamp_file_age :: "ConflictFile \<Rightarrow> world \<Rightarrow> error + int \<times> world" where
  "Timestamp_file_age conflict_file w =
     (case Timestamp_now w of
        Inl e \<Rightarrow> Inl e
      | Inr (now, w') \<Rightarrow>
          (case ConflictFile_top conflict_file of
             Inl e \<Rightarrow> Inl e
           | Inr c \<Rightarrow> Inr (Timestamp_delta now (timestamp c), w')))"

definition age_in_seconds :: "ConflictFile \<Rightarrow> world \<Rightarrow> error + int \<times> world" where
  "age_in_seconds self w = Timestamp_file_age self w"

definition ConflictFile_delete :: "ConflictFile \<Rightarrow> args \<Rightarrow> world \<Rightarrow> error + world" where
  "ConflictFile_delete self a w =
     (if commit a then os_remove (canonical_name w self) w
      else Inr (print (''delete: '' @ name self) w))"

definition ConflictFile_backup :: "ConflictFile \<Rightarrow> args \<Rightarrow> world \<Rightarrow> error + world" where
  "ConflictFile_backup self a w =
     (if commit a then
        (case (if \<not> isdir w (backup_directory self a)
               then os_mkdir (backup_directory self a) w else Inr w) of
           Inl e \<Rightarrow> Inl e
         | Inr w' \<Rightarrow> os_rename (canonical_name w' self) (canonical_backup self a) w')
      else Inr (print (''backup: '' @ name self) w))"

text \<open>
  \<^verbatim>\<open>set_parent\<close> works on the objects themselves: \<open>self\<close> and \<open>parent\<close> are addresses,
  and each assignment reads the heap as the one before left it (the two may be the same
  object). Membership in \<open>children\<close> compares objects by identity, the class defining no
  equality.
\<close>

definition set_parent :: "nat \<Rightarrow> nat \<Rightarrow> world \<Rightarrow> error + world" where
  "set_parent self p w =
     (if parent (heap w self) \<noteq> None then Inl AssertionError
      else
        (let w1 = w\<lparr>heap := (heap w)(self := (heap w self)\<lparr>parent := Some p\<rparr>)\<rparr>
         in if self \<in> set (children (heap w1 p)) then Inl AssertionError
            else Inr (w1\<lparr>heap := (heap w1)(p := (heap w1 p)\<lparr>children := children (heap w1 p) @ [self]\<rparr>)\<rparr>)))"

section \<open>Class Heuristic\<close>

definition Heuristic_NONE :: int where "Heuristic_NONE = 0"
definition Heuristic_OLD :: int where "Heuristic_OLD = 1"
definition Heuristic_SAME :: int where "Heuristic_SAME = 2"
definition Heuristic_NESTED :: int where "Heuristic_NESTED = 3"
definition Heuristic_ORPHANED :: int where "Heuristic_ORPHANED = 4"
definition Heuristic_OBSOLETE :: int where "Heuristic_OBSOLETE = 5"
definition Heuristic_YOUNG :: int where "Heuristic_YOUNG = 6"

text \<open>
  Every heuristic takes the file and the arguments (which none of them reads) and returns
  a truth value or raises; \<open>is_old\<close> and \<open>is_young\<close> may set \<^verbatim>\<open>Timestamp.NOW\<close>, so all of
  them return the world as well.
\<close>

type_synonym heuristic = "ConflictFile \<Rightarrow> args \<Rightarrow> world \<Rightarrow> error + bool \<times> world"

definition is_old :: heuristic where
  "is_old conflict_file a w =
     (let days_threshold = 30
      in case age_in_seconds conflict_file w of
           Inl e \<Rightarrow> Inl e
         | Inr (age, w') \<Rightarrow> Inr (age > days_threshold * 60 * 60 * 24, w'))"

definition is_young :: heuristic where
  "is_young conflict_file a w =
     (let days_threshold = 5
      in case age_in_seconds conflict_file w of
           Inl e \<Rightarrow> Inl e
         | Inr (age, w') \<Rightarrow> Inr (age < days_threshold * 60 * 60 * 24, w'))"

text \<open>
  \<open>is_same\<close> opens both files in text mode, feeds each line of each to a hash object and
  compares the digests. The \<^verbatim>\<open>return False\<close> after the \<^verbatim>\<open>with\<close> blocks is never
  reached: the blocks return or raise.
\<close>

definition is_same :: heuristic where
  "is_same conflict_file a w =
     (let selected' = canonical_selected w conflict_file;
          original' = canonical_original w conflict_file
      in case open_r w selected' of
           Inl e \<Rightarrow> Inl e
         | Inr fselected \<Rightarrow>
             (case open_r w original' of
                Inl e \<Rightarrow> Inl e
              | Inr foriginal \<Rightarrow>
                  (case update_lines [] fselected of
                     Inl e \<Rightarrow> Inl e
                   | Inr selected_digest \<Rightarrow>
                       (case update_lines [] foriginal of
                          Inl e \<Rightarrow> Inl e
                        | Inr original_digest \<Rightarrow>
                            Inr (sha256_digest selected_digest = sha256_digest original_digest, w)))))"

definition is_nested :: heuristic where
  "is_nested conflict_file a w = Inr (parent conflict_file \<noteq> None, w)"

definition is_orphan :: heuristic where
  "is_orphan conflict_file a w = Inr (\<not> isfile w (canonical_original w conflict_file), w)"

definition is_obsolete :: heuristic where
  "is_obsolete conflict_file a w = Inr (\<not> isfile w (canonical_selected w conflict_file), w)"

text \<open>
  \<open>check\<close> walks the items of its dictionary in the order they were written (a Python
  dictionary keeps insertion order) and returns the key of the first heuristic that
  holds; an exception of a heuristic ends the walk.
\<close>

fun check_items :: "(int \<times> heuristic) list \<Rightarrow> ConflictFile \<Rightarrow> args \<Rightarrow> world \<Rightarrow> error + int \<times> world" where
  "check_items [] conflict_file a w = Inr (Heuristic_NONE, w)"
| "check_items ((i, h) # rest) conflict_file a w =
     (case h conflict_file a w of
        Inl e \<Rightarrow> Inl e
      | Inr (b, w') \<Rightarrow> if b then Inr (i, w') else check_items rest conflict_file a w')"

definition check_mapping :: "(int \<times> heuristic) list" where
  "check_mapping =
     [(Heuristic_OLD, is_old),
      (Heuristic_OBSOLETE, is_obsolete),
      (Heuristic_SAME, is_same),
      (Heuristic_ORPHANED, is_orphan),
      (Heuristic_NESTED, is_nested),
      (Heuristic_YOUNG, is_young)]"

definition check :: "ConflictFile \<Rightarrow> args \<Rightarrow> world \<Rightarrow> error + int \<times> world" where
  "check conflict_file a w = check_items check_mapping conflict_file a w"

section \<open>Class Action\<close>

definition Action_DELETE :: int where "Action_DELETE = 0"
definition Action_BACKUP :: int where "Action_BACKUP = 1"
definition Action_PROMPT :: int where "Action_PROMPT = 2"

text \<open>\<^verbatim>\<open>Action.mapping(heuristic)\<close> indexes a dictionary: a key it lacks is a KeyError.\<close>

definition Action_mapping :: "int \<Rightarrow> error + int" where
  "Action_mapping h =
     (case map_of
        [(Heuristic_OLD, Action_DELETE),
         (Heuristic_SAME, Action_DELETE),
         (Heuristic_NESTED, Action_DELETE),
         (Heuristic_OBSOLETE, Action_DELETE),
         (Heuristic_ORPHANED, Action_DELETE),
         (Heuristic_YOUNG, Action_PROMPT),
         (Heuristic_NONE, Action_BACKUP)] h of
        None \<Rightarrow> Inl KeyError
      | Some action \<Rightarrow> Inr action)"

definition Action_delete :: "ConflictFile \<Rightarrow> args \<Rightarrow> world \<Rightarrow> error + world" where
  "Action_delete conflict_file a w = ConflictFile_delete conflict_file a w"

definition Action_backup :: "ConflictFile \<Rightarrow> args \<Rightarrow> world \<Rightarrow> error + world" where
  "Action_backup conflict_file a w = ConflictFile_backup conflict_file a w"

section \<open>Class Cli\<close>

text \<open>
  The scan is a list of objects, here of addresses. A Python dictionary is an association
  list in insertion order: assigning to a key it has replaces the value where the key
  stands, assigning to a new key appends, which is \<^const>\<open>AList.update\<close>.
\<close>

fun conflict_map_loop :: "world \<Rightarrow> nat list \<Rightarrow> (string \<times> nat) list \<Rightarrow> (string \<times> nat) list" where
  "conflict_map_loop w [] conflict_map = conflict_map"
| "conflict_map_loop w (conflict_file # rest) conflict_map =
     conflict_map_loop w rest
       (AList.update (canonical_name w (heap w conflict_file)) conflict_file conflict_map)"

definition Cli_conflict_map :: "world \<Rightarrow> nat list \<Rightarrow> (string \<times> nat) list" where
  "Cli_conflict_map w scan = conflict_map_loop w scan []"

text \<open>
  \<open>conflict_tree\<close>: a root goes into the tree; any other file looks its original up in
  the dictionary by indexing it, a KeyError where the key is missing, and is linked to
  what it finds.
\<close>

fun conflict_tree_loop ::
  "(string \<times> nat) list \<Rightarrow> (string \<times> nat) list \<Rightarrow> nat list \<Rightarrow> world \<Rightarrow> error + nat list \<times> world" where
  "conflict_tree_loop conflict_map [] conflict_tree w = Inr (conflict_tree, w)"
| "conflict_tree_loop conflict_map ((k, conflict_file) # rest) conflict_tree w =
     (if root (heap w conflict_file) then
        (if conflict_file \<in> set conflict_tree then Inl AssertionError
         else conflict_tree_loop conflict_map rest (conflict_tree @ [conflict_file]) w)
      else
        (case map_of conflict_map (canonical_original w (heap w conflict_file)) of
           None \<Rightarrow> Inl KeyError
         | Some original' \<Rightarrow>
             (case set_parent conflict_file original' w of
                Inl e \<Rightarrow> Inl e
              | Inr w' \<Rightarrow> conflict_tree_loop conflict_map rest conflict_tree w')))"

definition Cli_conflict_tree :: "(string \<times> nat) list \<Rightarrow> world \<Rightarrow> error + nat list \<times> world" where
  "Cli_conflict_tree conflict_map w = conflict_tree_loop conflict_map conflict_map [] w"

text \<open>
  \<open>actions\<close> sorts the files into three lists by the action their heuristic maps to,
  reading each object as the heap has it by then.
\<close>

fun actions_loop ::
  "(string \<times> nat) list \<Rightarrow> args \<Rightarrow> nat list list \<Rightarrow> world \<Rightarrow> error + nat list list \<times> world" where
  "actions_loop [] a actions w = Inr (actions, w)"
| "actions_loop ((k, conflict_file) # rest) a actions w =
     (case check (heap w conflict_file) a w of
        Inl e \<Rightarrow> Inl e
      | Inr (h, w') \<Rightarrow>
          (case Action_mapping h of
             Inl e \<Rightarrow> Inl e
           | Inr action \<Rightarrow>
               if 0 \<le> action \<and> nat action < length actions
               then actions_loop rest a
                      (actions[nat action := actions ! nat action @ [conflict_file]]) w'
               else Inl IndexError))"

definition Cli_actions :: "(string \<times> nat) list \<Rightarrow> args \<Rightarrow> world \<Rightarrow> error + nat list list \<times> world" where
  "Cli_actions conflict_map a w = actions_loop conflict_map a [[], [], []] w"

section \<open>Concrete files, used to run the functions above\<close>

text \<open>
  A synchronised folder \<^verbatim>\<open>/data\<close> with no symbolic links (\<open>realpath\<close> changes nothing),
  scanned without \<^verbatim>\<open>--commit\<close>.
\<close>

definition demo_args :: args where
  "demo_args = \<lparr>commit = False, backup_dir = ''.stbackups'', version_dir = ''.stversions'',
                 PATH = [''/data'']\<rparr>"

definition at_time :: "int \<Rightarrow> int \<Rightarrow> int \<Rightarrow> int \<Rightarrow> int \<Rightarrow> int \<Rightarrow> datetime" where
  "at_time y m d H M S = \<lparr>year = y, month = m, day = d, hour = H, minute = M, second = S\<rparr>"

definition marker :: "int \<Rightarrow> int \<Rightarrow> int \<Rightarrow> int \<Rightarrow> int \<Rightarrow> int \<Rightarrow> string \<Rightarrow> Conflict" where
  "marker y m d H M S u =
     \<lparr>Conflict.date = \<lparr>yy = y, mm = m, dd = d\<rparr>, Conflict.time = \<lparr>hh = H, mm = M, ss = S\<rparr>,
      uid = u,
      timestamp = \<lparr>Timestamp.date = \<lparr>yy = y, mm = m, dd = d\<rparr>,
                   Timestamp.time = \<lparr>hh = H, mm = M, ss = S\<rparr>,
                   dt = at_time y m d H M S\<rparr>\<rparr>"

definition blank_file :: ConflictFile where
  "blank_file = \<lparr>path = [], base = [], name = [], conflicts = [], selected = [], ext = [],
                  original = [], root = True, parent = None, children = []\<rparr>"

definition demo_world :: "(string \<times> node) list \<Rightarrow> datetime \<Rightarrow> ConflictFile list \<Rightarrow> world" where
  "demo_world fs now objects =
     \<lparr>files = map_of fs, realpath = (\<lambda>p. p), clock = now, NOW = None, stdout = [],
      heap = (\<lambda>i. if i < length objects then objects ! i else blank_file)\<rparr>"

text \<open>
  The conflict file of \<^verbatim>\<open>report.txt\<close> made on 1 January 2023, and the conflict file of
  that conflict file made on 5 January, as \<open>scan_name\<close> builds them (lemmas
  \<open>scan_name_report_root\<close> and \<open>scan_name_report_nested\<close> below).
\<close>

definition report_root :: ConflictFile where
  "report_root =
     \<lparr>path = ''/data'', base = ''/data'',
      name = ''report.sync-conflict-20230101-120000-ABC1234.txt'',
      conflicts = [marker 2023 1 1 12 0 0 ''ABC1234''],
      selected = ''report'', ext = ''.txt'', original = ''report'', root = True,
      parent = None, children = []\<rparr>"

definition report_nested :: ConflictFile where
  "report_nested =
     \<lparr>path = ''/data'', base = ''/data'',
      name = ''report.sync-conflict-20230101-120000-ABC1234.sync-conflict-20230105-090000-XYZ9876.txt'',
      conflicts = [marker 2023 1 1 12 0 0 ''ABC1234'', marker 2023 1 5 9 0 0 ''XYZ9876''],
      selected = ''report'', ext = ''.txt'',
      original = ''report.sync-conflict-20230101-120000-ABC1234'', root = False,
      parent = None, children = []\<rparr>"

text \<open>
  Three states of \<^verbatim>\<open>/data\<close> on 7 January 2023, 09:00:00, two days after the later
  conflict: with the live file, the first conflict file and the nested one, all of
  different content; with the live file and the first conflict file of the same content;
  and with the first conflict file gone, so that the scan finds the nested one alone.
\<close>

definition nested_world :: world where
  "nested_world =
     demo_world
       [(''/data/report.txt'', File (''live'' @ [CHR 0x0A])),
        (''/data/report.sync-conflict-20230101-120000-ABC1234.txt'', File (''older'' @ [CHR 0x0A])),
        (''/data/report.sync-conflict-20230101-120000-ABC1234.sync-conflict-20230105-090000-XYZ9876.txt'',
           File (''newest'' @ [CHR 0x0A]))]
       (at_time 2023 1 7 9 0 0)
       [report_root, report_nested]"

definition same_world :: world where
  "same_world =
     demo_world
       [(''/data/report.txt'', File (''same'' @ [CHR 0x0A])),
        (''/data/report.sync-conflict-20230101-120000-ABC1234.txt'', File (''same'' @ [CHR 0x0A]))]
       (at_time 2023 1 7 9 0 0)
       [report_root, report_nested]"

definition orphan_world :: world where
  "orphan_world =
     demo_world
       [(''/data/report.txt'', File (''live'' @ [CHR 0x0A])),
        (''/data/report.sync-conflict-20230101-120000-ABC1234.sync-conflict-20230105-090000-XYZ9876.txt'',
           File (''newest'' @ [CHR 0x0A]))]
       (at_time 2023 1 7 9 0 0)
       [report_nested]"




text \<open>
  The folder reached twice, as \<^verbatim>\<open>/data\<close> and through the symbolic link \<^verbatim>\<open>/link\<close>
  to it: the scan of both roots makes two objects for the one conflict file.
\<close>

definition linked_world :: world where
  "linked_world =
     (demo_world
       [(''/data/report.txt'', File (''live'' @ [CHR 0x0A])),
        (''/data/report.sync-conflict-20230101-120000-ABC1234.txt'', File (''older'' @ [CHR 0x0A]))]
       (at_time 2023 1 7 9 0 0)
       [report_root, report_root\<lparr>path := ''/link'', base := ''/link''\<rparr>])
     \<lparr>realpath := (\<lambda>p. if p = ''/link'' then ''/data'' else p)\<rparr>"



section \<open>The concrete files are what the scan builds\<close>

lemma scan_name_report_root:
  "scan_name ''/data'' ''/data'' ''report.sync-conflict-20230101-120000-ABC1234.txt''
     = Inr (Some report_root)"
  by code_simp

lemma scan_name_report_nested:
  "scan_name ''/data'' ''/data''
     ''report.sync-conflict-20230101-120000-ABC1234.sync-conflict-20230105-090000-XYZ9876.txt''
     = Inr (Some report_nested)"
  by code_simp

section \<open>Construction of a ConflictFile\<close>

lemma Conflict_repr_nonempty: "Conflict_repr c \<noteq> []"
  by (simp add: Conflict_repr_def)

lemma Conflict_format_empty_iff: "(Conflict_format cs = []) = (cs = [])"
  by (cases cs) (simp_all add: Conflict_repr_nonempty)

lemma ConflictFile_init_fields:
  assumes "ConflictFile_init p b n cs = Inr f"
  shows "path f = p" and "base f = b" and "name f = n" and "conflicts f = cs"
    and "(selected f, ext f) = splitext (REGEX_sub_empty n)"
    and "original f = selected f @ Conflict_format (butlast cs)"
    and "root f = (original f = selected f)"
    and "parent f = None" and "children f = []"
    and "n = selected f @ Conflict_format cs @ ext f"
  using assms
  by (auto simp: ConflictFile_init_def Let_def ConflictFile_format_def ConflictFile_repr_def
      split: if_splits)

lemma ConflictFile_init_fails_iff:
  "(ConflictFile_init p b n cs = Inl e) =
     (e = AssertionError \<and>
      n \<noteq> fst (splitext (REGEX_sub_empty n)) @ Conflict_format cs @ snd (splitext (REGEX_sub_empty n)))"
  by (auto simp: ConflictFile_init_def Let_def ConflictFile_format_def ConflictFile_repr_def)

lemma scan_name_Some:
  assumes "scan_name p b n = Inr (Some f)"
  shows "\<exists>cs. Conflict_parse n = Inr cs \<and> cs \<noteq> [] \<and> ConflictFile_init p b n cs = Inr f"
  using assms by (auto simp: scan_name_def split: sum.splits if_splits)

lemma butlast_empty_iff: "cs \<noteq> [] \<Longrightarrow> (butlast cs = []) = (length cs = 1)"
  by (cases cs) (auto split: if_splits)

lemma init_root_iff:
  assumes "ConflictFile_init p b n cs = Inr f" and "cs \<noteq> []"
  shows "root f = (length (conflicts f) = 1)"
  using ConflictFile_init_fields[OF assms(1)] assms(2)
  by (simp add: Conflict_format_empty_iff butlast_empty_iff)

text \<open>
  Claim C7. Every ConflictFile the scan constructs is a root exactly when it has one
  marker, which is exactly when its original stem equals its selected stem; the scan
  constructs none without a marker.
\<close>

theorem root_iff_single_marker:
  assumes "scan_name p b n = Inr (Some f)"
  shows "(root f \<longleftrightarrow> length (conflicts f) = 1) \<and> (root f \<longleftrightarrow> original f = selected f)
    \<and> conflicts f \<noteq> []"
proof -
  from scan_name_Some[OF assms] obtain cs where
    cs: "cs \<noteq> []" and i: "ConflictFile_init p b n cs = Inr f" by blast
  show ?thesis
    using init_root_iff[OF i cs] ConflictFile_init_fields(4,7)[OF i] cs by simp
qed

theorem root_iff_single_marker_witness:
  "root report_root \<and> length (conflicts report_root) = 1 \<and>
   original report_root = selected report_root \<and>
   \<not> root report_nested \<and> length (conflicts report_nested) = 2 \<and>
   original report_nested \<noteq> selected report_nested"
  using root_iff_single_marker [OF scan_name_report_root]
        root_iff_single_marker [OF scan_name_report_nested]
  by (simp add: report_root_def report_nested_def)

text \<open>
  Claim C5. A name with its marker straight before the extension need not survive the
  round trip: the conflict file of the dotfile \<^verbatim>\<open>.bashrc\<close> parses to its one marker, but
  \<open>splitext\<close> takes \<^verbatim>\<open>.bashrc\<close> whole for the stem, the text of the object puts the
  marker behind it, and the assertion of the constructor fails.
\<close>

theorem dotfile_conflict_name_fails_round_trip:
  "map_sum id (map Conflict_repr) (Conflict_parse ''.sync-conflict-20230101-120000-ABC1234.bashrc'')
     = Inr [''.sync-conflict-20230101-120000-ABC1234''] \<and>
   splitext (REGEX_sub_empty ''.sync-conflict-20230101-120000-ABC1234.bashrc'') = (''.bashrc'', []) \<and>
   scan_name ''/data'' ''/data'' ''.sync-conflict-20230101-120000-ABC1234.bashrc'' = Inl AssertionError"
  by code_simp

section \<open>The heuristics\<close>



lemma universal_newlines_empty_iff: "(universal_newlines s = []) = (s = [])"
  by (induction s rule: universal_newlines.induct) auto

lemma split_lines_empty_iff: "(split_lines s = []) = (s = [])"
  by (cases s) (auto split: list.splits)

lemma update_lines_Inr_iff: "(update_lines h ls = Inr h') = (ls = [] \<and> h' = h)"
  by (cases ls) auto

lemma lines_empty_iff:
  "(split_lines (universal_newlines c) = []) = (c = [])"
  "([] = split_lines (universal_newlines c)) = (c = [])"
  using split_lines_empty_iff[of "universal_newlines c"] universal_newlines_empty_iff[of c]
  by auto

lemma open_r_Inr_iff:
  "(open_r w p = Inr ls) = (\<exists>c. files w p = Some (File c) \<and> ls = split_lines (universal_newlines c))"
  by (auto simp: open_r_def split: option.splits node.splits)

lemma is_same_returns:
  "(is_same f a w = Inr (b, w')) =
     (files w (canonical_selected w f) = Some (File []) \<and>
      files w (canonical_original w f) = Some (File []) \<and> b \<and> w' = w)"
proof
  assume "is_same f a w = Inr (b, w')"
  then show "files w (canonical_selected w f) = Some (File []) \<and>
      files w (canonical_original w f) = Some (File []) \<and> b \<and> w' = w"
    by (auto simp: is_same_def Let_def open_r_Inr_iff update_lines_Inr_iff sha256_digest_def
        lines_empty_iff split: sum.splits)
next
  assume "files w (canonical_selected w f) = Some (File []) \<and>
      files w (canonical_original w f) = Some (File []) \<and> b \<and> w' = w"
  then show "is_same f a w = Inr (b, w')"
    by (simp add: is_same_def Let_def open_r_def sha256_digest_def)
qed

lemma check_returns:
  assumes "check f a w = Inr (h, w')"
  shows "h = Heuristic_OLD \<or> h = Heuristic_OBSOLETE \<or> h = Heuristic_SAME"
  using assms
  by (auto simp: check_def check_mapping_def is_old_def is_obsolete_def is_same_returns
      split: sum.splits prod.splits if_splits)


text \<open>
  Claim C3. \<open>is_same\<close> does not decide whether the two files are identical: on a live
  file and an ancestor file that both exist and hold the same non-empty bytes it raises
  TypeError, the hash object being fed a line of text; and where the ancestor file is
  absent it raises FileNotFoundError instead of returning \<open>False\<close>.
\<close>

theorem is_same_raises_on_identical_files:
  "files same_world (canonical_selected same_world report_nested) = Some (File (''same'' @ [CHR 0x0A])) \<and>
   files same_world (canonical_original same_world report_nested) = Some (File (''same'' @ [CHR 0x0A])) \<and>
   map_sum id fst (is_same report_nested demo_args same_world) = Inl TypeError \<and>
   files orphan_world (canonical_original orphan_world report_nested) = None \<and>
   map_sum id fst (is_same report_nested demo_args orphan_world) = Inl FileNotFoundError"
  by code_simp

text \<open>
  Claim C1. \<open>check\<close> does not return the first classification that holds for every
  file: for the nested conflict file two days old, linked to its parent by
  \<open>conflict_tree\<close>, with its live file and its ancestor file both on disk and different,
  the chain reaches \<open>is_same\<close> and ends in its TypeError, before NESTED is looked at; so
  does \<open>actions\<close>.
\<close>

theorem check_raises_on_linked_nested_conflict:
  "map_sum id fst (Cli_conflict_tree (Cli_conflict_map nested_world [0, 1]) nested_world) = Inr [0] \<and>
   (case Cli_conflict_tree (Cli_conflict_map nested_world [0, 1]) nested_world of
      Inl e \<Rightarrow> False
    | Inr (tree, w) \<Rightarrow>
        parent (heap w 1) = Some 0 \<and>
        map_sum id fst (age_in_seconds (heap w 1) w) = Inr (2 * 86400) \<and>
        isfile w (canonical_selected w (heap w 1)) \<and>
        isfile w (canonical_original w (heap w 1)) \<and>
        files w (canonical_selected w (heap w 1)) \<noteq> files w (canonical_original w (heap w 1)) \<and>
        map_sum id fst (check (heap w 1) demo_args w) = Inl TypeError \<and>
        map_sum id fst (Cli_actions (Cli_conflict_map nested_world [0, 1]) demo_args w) = Inl TypeError)"
  by code_simp

section \<open>The mapping from heuristics to actions\<close>

text \<open>
  Claim C6. \<open>Action.mapping\<close> gives an action for each of the seven classifications:
  DELETE for OLD, SAME, NESTED, ORPHANED and OBSOLETE, PROMPT for YOUNG and nothing else,
  BACKUP for NONE and nothing else.
\<close>

theorem Action_mapping_total:
  "Action_mapping Heuristic_OLD = Inr Action_DELETE \<and>
   Action_mapping Heuristic_SAME = Inr Action_DELETE \<and>
   Action_mapping Heuristic_NESTED = Inr Action_DELETE \<and>
   Action_mapping Heuristic_ORPHANED = Inr Action_DELETE \<and>
   Action_mapping Heuristic_OBSOLETE = Inr Action_DELETE \<and>
   Action_mapping Heuristic_YOUNG = Inr Action_PROMPT \<and>
   Action_mapping Heuristic_NONE = Inr Action_BACKUP \<and>
   (\<forall>h. (Action_mapping h = Inr Action_PROMPT) = (h = Heuristic_YOUNG)) \<and>
   (\<forall>h. (Action_mapping h = Inr Action_BACKUP) = (h = Heuristic_NONE)) \<and>
   (\<forall>h. (Action_mapping h = Inr Action_DELETE) =
      (h = Heuristic_OLD \<or> h = Heuristic_SAME \<or> h = Heuristic_NESTED \<or> h = Heuristic_ORPHANED \<or> h = Heuristic_OBSOLETE)) \<and>
   (\<forall>h. (Action_mapping h = Inl KeyError) = (h < 0 \<or> 6 < h)) \<and>
   distinct [Action_DELETE, Action_BACKUP, Action_PROMPT] \<and>
   distinct [Heuristic_NONE, Heuristic_OLD, Heuristic_SAME, Heuristic_NESTED,
             Heuristic_ORPHANED, Heuristic_OBSOLETE, Heuristic_YOUNG]"
  by (auto simp: Action_mapping_def Heuristic_OLD_def Heuristic_SAME_def Heuristic_NESTED_def
      Heuristic_ORPHANED_def Heuristic_OBSOLETE_def Heuristic_YOUNG_def Heuristic_NONE_def
      Action_DELETE_def Action_BACKUP_def Action_PROMPT_def)

section \<open>The path index and the ancestry tree\<close>

text \<open>
  Claim C4. \<open>conflict_tree\<close> fails on a file that is not a root and whose original is
  not a key of the index: scanning the nested conflict file without its parent raises
  KeyError.
\<close>

theorem conflict_tree_raises_on_missing_original:
  "scan_name ''/data'' ''/data''
     ''report.sync-conflict-20230101-120000-ABC1234.sync-conflict-20230105-090000-XYZ9876.txt''
     = Inr (Some (heap orphan_world 0)) \<and>
   \<not> root (heap orphan_world 0) \<and>
   map_of (Cli_conflict_map orphan_world [0]) (canonical_original orphan_world (heap orphan_world 0)) = None \<and>
   map_sum id fst (Cli_conflict_tree (Cli_conflict_map orphan_world [0]) orphan_world) = Inl KeyError"
  by code_simp

lemma conflict_map_loop_lookup:
  "map_of (conflict_map_loop w scan acc) k =
     (case filter (\<lambda>i. canonical_name w (heap w i) = k) scan of
        [] \<Rightarrow> map_of acc k
      | x # xs \<Rightarrow> Some (last (x # xs)))"
proof (induction scan arbitrary: acc)
  case Nil
  then show ?case by simp
next
  case (Cons i scan)
  show ?case
    by (simp add: Cons.IH update_conv' split: list.splits)
qed

lemma update_key_set: "fst ` set (AList.update k v al) = insert k (fst ` set al)"
  by (induction al) auto

lemma conflict_map_loop_keys:
  "fst ` set (conflict_map_loop w scan acc) =
     fst ` set acc \<union> (\<lambda>i. canonical_name w (heap w i)) ` set scan"
  by (induction scan arbitrary: acc) (auto simp: update_key_set)

lemma conflict_map_loop_distinct:
  "distinct (map fst acc) \<Longrightarrow> distinct (map fst (conflict_map_loop w scan acc))"
  by (induction scan arbitrary: acc) (auto simp: distinct_update)

lemma filter_distinct_key:
  assumes "distinct (map g xs)" and "i \<in> set xs"
  shows "filter (\<lambda>j. g j = g i) xs = [i]"
  using assms
proof (induction xs)
  case Nil
  then show ?case by simp
next
  case (Cons x xs)
  then show ?case by (auto simp: filter_empty_conv image_iff)
qed

text \<open>
  Claim C8, as the code has it. Building the index never fails. Of the scanned files with
  one canonical path the index keeps the one scanned last, silently; when the canonical
  paths of the scan are distinct, the index maps each to its file. Its keys are the
  canonical paths of the scan, each once.
\<close>

theorem conflict_map_last_wins:
  "map_of (Cli_conflict_map w scan) k =
     (case filter (\<lambda>i. canonical_name w (heap w i) = k) scan of
        [] \<Rightarrow> None
      | x # xs \<Rightarrow> Some (last (x # xs))) \<and>
   (distinct (map (\<lambda>i. canonical_name w (heap w i)) scan) \<longrightarrow>
      (\<forall>i \<in> set scan. map_of (Cli_conflict_map w scan) (canonical_name w (heap w i)) = Some i)) \<and>
   fst ` set (Cli_conflict_map w scan) = (\<lambda>i. canonical_name w (heap w i)) ` set scan \<and>
   distinct (map fst (Cli_conflict_map w scan))"
proof -
  have a: "map_of (Cli_conflict_map w scan) k =
     (case filter (\<lambda>i. canonical_name w (heap w i) = k) scan of
        [] \<Rightarrow> None
      | x # xs \<Rightarrow> Some (last (x # xs)))" for k
    by (simp add: Cli_conflict_map_def conflict_map_loop_lookup split: list.splits)
  have b: "map_of (Cli_conflict_map w scan) (canonical_name w (heap w i)) = Some i"
    if "distinct (map (\<lambda>i. canonical_name w (heap w i)) scan)" and "i \<in> set scan" for i
    using filter_distinct_key [OF that] by (simp add: a)
  have c: "fst ` set (Cli_conflict_map w scan) = (\<lambda>i. canonical_name w (heap w i)) ` set scan"
    by (simp add: Cli_conflict_map_def conflict_map_loop_keys)
  have d: "distinct (map fst (Cli_conflict_map w scan))"
    by (simp add: Cli_conflict_map_def conflict_map_loop_distinct)
  show ?thesis using a b c d by blast
qed

theorem conflict_map_last_wins_witness:
  "map_of (Cli_conflict_map linked_world [0, 1])
     ''/data/report.sync-conflict-20230101-120000-ABC1234.txt'' = Some 1 \<and>
   distinct (map (\<lambda>i. canonical_name nested_world (heap nested_world i)) [0, 1]) \<and>
   map_of (Cli_conflict_map nested_world [0, 1]) (canonical_name nested_world (heap nested_world 0)) = Some 0 \<and>
   map_of (Cli_conflict_map nested_world [0, 1]) (canonical_name nested_world (heap nested_world 1)) = Some 1"
proof -
  have f: "filter (\<lambda>i. canonical_name linked_world (heap linked_world i) =
             ''/data/report.sync-conflict-20230101-120000-ABC1234.txt'') [0, 1] = [0, 1]"
    by code_simp
  have d: "distinct (map (\<lambda>i. canonical_name nested_world (heap nested_world i)) [0, 1])"
    by code_simp
  have a: "map_of (Cli_conflict_map linked_world [0, 1])
     ''/data/report.sync-conflict-20230101-120000-ABC1234.txt'' = Some 1"
    using conjunct1 [OF conflict_map_last_wins [of linked_world "[0, 1]"
            "''/data/report.sync-conflict-20230101-120000-ABC1234.txt''"]]
    unfolding f by simp
  have b: "\<forall>i \<in> set [0, 1]. map_of (Cli_conflict_map nested_world [0, 1])
             (canonical_name nested_world (heap nested_world i)) = Some i"
    using conjunct1 [OF conjunct2 [OF conflict_map_last_wins [of nested_world "[0, 1]" "[]"]]] d
    by (rule mp)
  have b0: "map_of (Cli_conflict_map nested_world [0, 1])
             (canonical_name nested_world (heap nested_world 0)) = Some 0"
    using b by (rule bspec) simp
  have b1: "map_of (Cli_conflict_map nested_world [0, 1])
             (canonical_name nested_world (heap nested_world 1)) = Some 1"
    using b by (rule bspec) simp
  show ?thesis using a d b0 b1 by (intro conjI)
qed

text \<open>
  Claim C8 as stated fails: two scanned objects with one canonical path raise nothing.
  The index has a single entry, for the later object, and \<open>conflict_tree\<close> completes on
  it.
\<close>

theorem duplicate_canonical_path_is_not_an_error:
  "heap linked_world 0 \<noteq> heap linked_world 1 \<and>
   canonical_name linked_world (heap linked_world 0) = canonical_name linked_world (heap linked_world 1) \<and>
   Cli_conflict_map linked_world [0, 1] =
     [(''/data/report.sync-conflict-20230101-120000-ABC1234.txt'', 1)] \<and>
   map_sum id fst (Cli_conflict_tree (Cli_conflict_map linked_world [0, 1]) linked_world) = Inr [1]"
  by code_simp

section \<open>A single marker and an absent ancestor\<close>






lemma check_never_orphaned:
  "check f a w \<noteq> Inr (Heuristic_ORPHANED, w')"
  using check_returns [of f a w Heuristic_ORPHANED w']
  by (auto simp: Heuristic_ORPHANED_def Heuristic_OLD_def Heuristic_OBSOLETE_def Heuristic_SAME_def)

section \<open>The clock\<close>

lemma check_keeps_now:
  assumes "check f a w = Inr (h, w')" and "NOW w = Some t"
  shows "w' = w"
proof -
  have n: "Timestamp_now w = Inr (t, w)" using assms(2) by (simp add: Timestamp_now_def)
  have "\<And>age w''. age_in_seconds f w = Inr (age, w'') \<Longrightarrow> w'' = w"
    using n by (auto simp: age_in_seconds_def Timestamp_file_age_def split: sum.splits)
  then show ?thesis
    using assms(1)
    by (auto simp: check_def check_mapping_def is_old_def is_obsolete_def is_same_returns
      split: sum.splits prod.splits if_splits)
qed

lemma actions_keep_now:
  "ConflictFile_delete f a w = Inr w' \<Longrightarrow> NOW w' = NOW w"
  "ConflictFile_backup f a w = Inr w' \<Longrightarrow> NOW w' = NOW w"
  "set_parent i j w = Inr w' \<Longrightarrow> NOW w' = NOW w"
  by (auto simp: ConflictFile_delete_def ConflictFile_backup_def set_parent_def os_remove_def
      os_mkdir_def os_rename_def print_def Let_def
      split: if_splits option.splits node.splits sum.splits)




section \<open>Actions without \<^verbatim>\<open>--commit\<close>\<close>

text \<open>
  Claim C9. With \<open>commit\<close> false, \<open>delete\<close> and \<open>backup\<close> return the world they were
  given with one line more printed: the files, the directories, the heap of ConflictFile
  objects and all else are as before.
\<close>

theorem dry_run_changes_nothing:
  assumes "\<not> commit a"
  shows "ConflictFile_delete self a w = Inr (w\<lparr>stdout := stdout w @ [''delete: '' @ name self]\<rparr>) \<and>
         ConflictFile_backup self a w = Inr (w\<lparr>stdout := stdout w @ [''backup: '' @ name self]\<rparr>) \<and>
         Action_delete self a w = ConflictFile_delete self a w \<and>
         Action_backup self a w = ConflictFile_backup self a w \<and>
         (\<forall>w'. ConflictFile_delete self a w = Inr w' \<or> ConflictFile_backup self a w = Inr w' \<longrightarrow>
            files w' = files w \<and> realpath w' = realpath w \<and> heap w' = heap w \<and> NOW w' = NOW w)"
  using assms
  by (auto simp: ConflictFile_delete_def ConflictFile_backup_def print_def Action_delete_def
      Action_backup_def)

theorem dry_run_changes_nothing_witness:
  "\<not> commit demo_args \<and>
   ConflictFile_delete report_root demo_args nested_world =
     Inr (nested_world\<lparr>stdout := stdout nested_world @ [''delete: '' @ name report_root]\<rparr>) \<and>
   ConflictFile_backup report_root demo_args nested_world =
     Inr (nested_world\<lparr>stdout := stdout nested_world @ [''backup: '' @ name report_root]\<rparr>)"
proof -
  have h: "\<not> commit demo_args" by (simp add: demo_args_def)
  show ?thesis using h dry_run_changes_nothing [OF h, of report_root nested_world] by simp
qed

text \<open>
  With \<open>commit\<close> true the two actions do change the file system: \<open>delete\<close> removes the
  conflict file, and \<open>backup\<close> moves it into the backup directory, which it creates.
\<close>

lemma committed_delete_removes:
  assumes "commit a" and "isfile w (canonical_name w self)"
  shows "ConflictFile_delete self a w =
           Inr (w\<lparr>files := (files w)(canonical_name w self := None)\<rparr>)"
  using assms
  by (auto simp: ConflictFile_delete_def os_remove_def isfile_def split: option.splits node.splits)

lemma committed_backup_moves:
  "map_sum id (\<lambda>w. (files w ''/data/report.sync-conflict-20230101-120000-ABC1234.txt'',
                     files w ''/data/.stbackups'',
                     files w ''/data/.stbackups/report.sync-conflict-20230101-120000-ABC1234.txt''))
     (ConflictFile_backup report_root (demo_args\<lparr>commit := True\<rparr>)
        (demo_world [(''/data'', Dir),
                     (''/data/report.sync-conflict-20230101-120000-ABC1234.txt'', File ''mine'')]
           (at_time 2023 1 3 12 0 0) [report_root]))
   = Inr (None, Some Dir, Some (File ''mine''))"
  by code_simp

end
